theory Spec2Isabelle
  imports Main
begin

section \<open>The honeypot manager (honeypots/manager.py)\<close>

text \<open>
  The source of \<open>HoneypotManager\<close> is the compiled module \<open>honeypots/manager.py\<close>
  (CPython 3.12 bytecode, file \<open>src/unnamed/part_000\<close>). The definitions below follow the
  bytecode of each method instruction by instruction; the Python text quoted in the comments
  is the reading of that bytecode.

  Python values are modelled as follows.
  \<^item> \<open>self.honeypots\<close>, a dict from id to honeypot object, is an association list in
    insertion order (the order \<open>items()\<close> iterates).
  \<^item> \<open>self.config\<close> is whatever \<open>yaml.safe_load\<close> returned. The code only ever looks at the
    key \<open>'honeypots'\<close> of it and at the keys \<open>id, type, ip, port, options\<close> of each entry, so
    a configuration is either not a mapping at all (\<open>NonDict\<close>: \<open>.get\<close> raises AttributeError)
    or a mapping whose \<open>'honeypots'\<close> key is absent or holds a list of entries; each of the
    five keys of an entry may be absent (\<open>entry['id']\<close> then raises KeyError).
  \<^item> the module-level \<open>logger\<close> is a list of entries carried in the manager state.
  \<^item> a key that is present holds a value of the type the code expects (a string for \<open>id\<close>,
    \<open>type\<close> and \<open>ip\<close>, an integer for \<open>port\<close>, a mapping of strings for \<open>options\<close>).
  \<^item> an exception is a value of type \<open>exn\<close>; where a method can raise to its caller, its
    result says so.
  The field \<open>ai_analyzer\<close>, the two methods that delegate to it, and the two stop methods
  are left out.
\<close>

subsection \<open>Data\<close>

type_synonym options = "(string \<times> string) list"

datatype honeypot_kind = SSH | Web

datatype lifecycle = Inactive | Active

text \<open>
  Modelled from the spec: the classes \<open>SSHHoneypot\<close>, \<open>WebHoneypot\<close> and their base class are
  imported by the manager but are not part of the source. The spec's contract for them is:
  the constructor takes \<open>(id, bind_address, port, options)\<close> and either raises or yields an
  instance in state Inactive; \<open>start()\<close> either raises or leaves the instance Active;
  \<open>status\<close> is readable and compared with \<open>'Active'\<close>; \<open>get_status()\<close> yields a snapshot that
  the manager relays without looking into it.
\<close>

record honeypot =
  hp_id :: string
  hp_kind :: honeypot_kind
  hp_ip :: string
  hp_port :: int
  hp_options :: options
  status :: lifecycle

datatype exn =
    OSError
  | YAMLError
  | ConstructorError
  | KeyError string
  | AttributeError
  | TypeError
  | RuntimeError
  | StartFailure

text \<open>
  What the collaborators and the Python runtime do is not decided by the manager, so it is a
  parameter: which constructor calls raise (for any reason, a keyword argument the
  constructor does not take included), which instances fail to start, whether an event loop
  is running when the synchronous \<open>remove_honeypot\<close> calls \<open>asyncio.create_task\<close> (which
  raises RuntimeError without one), and what \<open>str.upper()\<close> returns on a string that has
  characters outside ASCII.
\<close>

record env =
  ctor_raises :: "honeypot_kind \<Rightarrow> string \<Rightarrow> string \<Rightarrow> int \<Rightarrow> options \<Rightarrow> bool"
  start_raises :: "honeypot \<Rightarrow> bool"
  loop_running :: bool
  unicode_upper :: "string \<Rightarrow> string"

definition construct ::
  "env \<Rightarrow> honeypot_kind \<Rightarrow> string \<Rightarrow> string \<Rightarrow> int \<Rightarrow> options \<Rightarrow> exn + honeypot" where
  "construct e k hid ip port opts =
     (if ctor_raises e k hid ip port opts then Inl ConstructorError
      else Inr \<lparr>hp_id = hid, hp_kind = k, hp_ip = ip, hp_port = port,
                hp_options = opts, status = Inactive\<rparr>)"

definition start :: "env \<Rightarrow> honeypot \<Rightarrow> exn + honeypot" where
  "start e h = (if start_raises e h then Inl StartFailure else Inr (h\<lparr>status := Active\<rparr>))"

definition get_status :: "honeypot \<Rightarrow> honeypot" where
  "get_status h = h"

record definition_entry =
  def_id :: "string option"
  def_type :: "string option"
  def_ip :: "string option"
  def_port :: "int option"
  def_options :: "options option"

datatype config = NonDict | Dict "definition_entry list option"

datatype level = Info | Warning | Error

datatype log_entry = Log level string "exn option"

record manager =
  honeypots :: "(string \<times> honeypot) list"
  config :: config
  running :: bool
  log :: "log_entry list"

subsection \<open>Python dict and string operations\<close>

text \<open>\<open>d[k] = v\<close>: an existing key keeps its place, a new key goes to the end.\<close>

fun dict_set :: "'k \<Rightarrow> 'v \<Rightarrow> ('k \<times> 'v) list \<Rightarrow> ('k \<times> 'v) list" where
  "dict_set k v [] = [(k, v)]"
| "dict_set k v (p # ps) = (if fst p = k then (k, v) # ps else p # dict_set k v ps)"

text \<open>\<open>del d[k]\<close>, for a key that is present.\<close>

fun dict_del :: "'k \<Rightarrow> ('k \<times> 'v) list \<Rightarrow> ('k \<times> 'v) list" where
  "dict_del k [] = []"
| "dict_del k (p # ps) = (if fst p = k then ps else p # dict_del k ps)"

text \<open>
  \<open>str.upper()\<close>. A string is the list of the bytes of its UTF-8 encoding. On a string of
  ASCII characters only, \<open>upper\<close> replaces the letters \<open>a\<close> to \<open>z\<close> by \<open>A\<close> to \<open>Z\<close> and
  keeps every other character. On any other string it is the case mapping of Unicode, which
  can change the length (a sharp s becomes \<open>SS\<close>, so a tag made of a sharp s and \<open>h\<close>
  upper-cases to \<open>SSH\<close>); that mapping is the parameter \<open>unicode_upper\<close>.
\<close>

definition upper_char :: "char \<Rightarrow> char" where
  "upper_char c =
     (case map_of (zip ''abcdefghijklmnopqrstuvwxyz'' ''ABCDEFGHIJKLMNOPQRSTUVWXYZ'') c of
        None \<Rightarrow> c
      | Some u \<Rightarrow> u)"

definition is_ascii :: "char \<Rightarrow> bool" where
  "is_ascii c = (\<not> digit7 c)"

definition upper :: "env \<Rightarrow> string \<Rightarrow> string" where
  "upper e s = (if list_all is_ascii s then map upper_char s else unicode_upper e s)"

definition logged :: "level \<Rightarrow> string \<Rightarrow> exn option \<Rightarrow> manager \<Rightarrow> manager" where
  "logged l s x m = m\<lparr>log := log m @ [Log l s x]\<rparr>"

text \<open>\<open>self.config.get('honeypots', [])\<close> on a mapping.\<close>

fun get_honeypots :: "definition_entry list option \<Rightarrow> definition_entry list" where
  "get_honeypots None = []"
| "get_honeypots (Some ds) = ds"

subsection \<open>Configuration: \<open>__init__\<close>, \<open>load_config\<close>, \<open>save_config\<close>\<close>

text \<open>
  The operating system and the YAML library are parameters. A path is absent, or holds a
  document that \<open>open(path, 'r')\<close> yields, or exists but cannot be opened (a directory, no
  permission). \<open>open(path, 'w')\<close> raises on the paths of \<open>write_denied\<close>. \<open>safe_load\<close> yields
  \<open>None\<close> where the library raises on the document; \<open>dump\<close> is taken not to raise.
\<close>

datatype 'd node = Absent | File 'd | Blocked

record 'd os =
  nodes :: "string \<Rightarrow> 'd node"
  write_denied :: "string \<Rightarrow> bool"

record 'd yaml =
  safe_load :: "'d \<Rightarrow> config option"
  dump :: "config \<Rightarrow> 'd"

text \<open>
  The two literal entries of \<open>__init__\<close>. The two port constants are marshalled 32-bit
  integers whose low byte is above \<open>0x7f\<close> and whose remaining bytes are \<open>08 00 00\<close> and
  \<open>1f 00 00\<close>: the ports \<open>0x08ae = 2222\<close> and \<open>0x1f90 = 8080\<close> that the dashboard source
  names (\<open>SSH: 2222, Web: 8080\<close>). Whatever the low bytes, the constants lie between 2176
  and 2303 and between 8064 and 8191.
\<close>

definition default_config :: config where
  "default_config = Dict (Some
     [\<lparr>def_id = Some ''ssh-honeypot-1'', def_type = Some ''SSH'', def_ip = Some ''0.0.0.0'',
       def_port = Some 2222,
       def_options = Some [(''banner'', ''SSH-2.0-OpenSSH_8.2p1 Ubuntu-4ubuntu0.5'')]\<rparr>,
      \<lparr>def_id = Some ''web-honeypot-1'', def_type = Some ''Web'', def_ip = Some ''0.0.0.0'',
       def_port = Some 8080,
       def_options = Some [(''server_type'', ''Apache/2.4.41 (Ubuntu)'')]\<rparr>])"

text \<open>
  \<^verbatim>\<open>
  def load_config(self, config_file):
      try:
          with open(config_file, 'r') as f:
              self.config = yaml.safe_load(f)
              logger.info(f"Configuration loaded from {config_file}")
      except Exception as e:
          logger.error(f"Failed to load configuration: {str(e)}")
          self.config = {'honeypots': []}
  \<close>
\<close>

definition load_config :: "'d yaml \<Rightarrow> 'd os \<Rightarrow> manager \<Rightarrow> string \<Rightarrow> manager" where
  "load_config y os m config_file =
     (case nodes os config_file of
        File d \<Rightarrow>
          (case safe_load y d of
             Some c \<Rightarrow>
               logged Info (''Configuration loaded from '' @ config_file) None
                 (m\<lparr>config := c\<rparr>)
           | None \<Rightarrow>
               (logged Error ''Failed to load configuration: '' (Some YAMLError) m)
                 \<lparr>config := Dict (Some [])\<rparr>)
      | _ \<Rightarrow>
          (logged Error ''Failed to load configuration: '' (Some OSError) m)
            \<lparr>config := Dict (Some [])\<rparr>)"

text \<open>
  \<^verbatim>\<open>
  def save_config(self, config_file):
      try:
          with open(config_file, 'w') as f:
              yaml.dump(self.config, f, default_flow_style=False)
              logger.info(f"Configuration saved to {config_file}")
      except Exception as e:
          logger.error(f"Failed to save configuration: {str(e)}")
  \<close>
\<close>

definition save_config :: "'d yaml \<Rightarrow> 'd os \<Rightarrow> manager \<Rightarrow> string \<Rightarrow> 'd os \<times> manager" where
  "save_config y os m config_file =
     (if write_denied os config_file
      then (os, logged Error ''Failed to save configuration: '' (Some OSError) m)
      else (os\<lparr>nodes := (nodes os)(config_file := File (dump y (config m)))\<rparr>,
            logged Info (''Configuration saved to '' @ config_file) None m))"

text \<open>
  \<^verbatim>\<open>
  def __init__(self, config_file=None):
      self.honeypots = {}
      self.config = {}
      self.running = False
      self.ai_analyzer = AIAnalyzer()
      if config_file and os.path.exists(config_file):
          self.load_config(config_file)
      else:
          self.config = {'honeypots': [ {...ssh...}, {...web...} ]}
  \<close>
\<close>

definition HoneypotManager :: "'d yaml \<Rightarrow> 'd os \<Rightarrow> string option \<Rightarrow> manager" where
  "HoneypotManager y os config_file =
     (let m = \<lparr>honeypots = [], config = Dict None, running = False, log = []\<rparr>
      in case config_file of
           None \<Rightarrow> m\<lparr>config := default_config\<rparr>
         | Some p \<Rightarrow>
             if p \<noteq> [] \<and> nodes os p \<noteq> Absent then load_config y os m p
             else m\<lparr>config := default_config\<rparr>)"

subsection \<open>Registry operations: \<open>create_honeypot\<close>, \<open>remove_honeypot\<close>, status\<close>

text \<open>
  \<open>any(h['id'] == honeypot_id for h in entries)\<close>: stops at the first entry with that id,
  raises KeyError at an entry without the key \<open>id\<close> that it reaches.
\<close>

fun any_id :: "string \<Rightarrow> definition_entry list \<Rightarrow> exn + bool" where
  "any_id honeypot_id [] = Inr False"
| "any_id honeypot_id (h # hs) =
     (case def_id h of
        None \<Rightarrow> Inl (KeyError ''id'')
      | Some i \<Rightarrow> if i = honeypot_id then Inr True else any_id honeypot_id hs)"

text \<open>
  \<open>[h for h in entries if h['id'] != honeypot_id]\<close>: visits every entry, raises KeyError at
  the first one without the key \<open>id\<close>.
\<close>

fun without_id :: "string \<Rightarrow> definition_entry list \<Rightarrow> exn + definition_entry list" where
  "without_id honeypot_id [] = Inr []"
| "without_id honeypot_id (h # hs) =
     (case def_id h of
        None \<Rightarrow> Inl (KeyError ''id'')
      | Some i \<Rightarrow>
          (case without_id honeypot_id hs of
             Inl x \<Rightarrow> Inl x
           | Inr r \<Rightarrow> Inr (if i \<noteq> honeypot_id then h # r else r)))"

text \<open>
  \<^verbatim>\<open>
  def create_honeypot(self, honeypot_id, honeypot_type, ip, port, **options):
      if honeypot_id in self.honeypots:
          logger.warning(f"Honeypot with ID {honeypot_id} already exists")
          return self.honeypots[honeypot_id]
      honeypot = None
      try:
          if honeypot_type.upper() == 'SSH':
              honeypot = SSHHoneypot(honeypot_id, ip, port, **options)
          elif honeypot_type.upper() == 'WEB':
              honeypot = WebHoneypot(honeypot_id, ip, port, **options)
          else:
              logger.error(f"Unsupported honeypot type: {honeypot_type}")
              return None
          self.honeypots[honeypot_id] = honeypot
          logger.info(f"Created {honeypot_type} honeypot with ID {honeypot_id}")
          if not any(h['id'] == honeypot_id for h in self.config.get('honeypots', [])):
              self.config.setdefault('honeypots', []).append({
                  'id': honeypot_id, 'type': honeypot_type, 'ip': ip,
                  'port': port, 'options': options})
          return honeypot
      except Exception as e:
          logger.error(f"Failed to create honeypot: {str(e)}")
          return None
  \<close>
  \<open>store_created\<close> is the part of the \<open>try\<close> block after the constructor call, which the
  two constructor branches share, together with the handler. The argument \<open>opts\<close> is the
  dict \<open>options\<close> as the method receives it, after the call has bound its arguments. The
  constructor call spreads it again; whatever that call raises, a TypeError for a keyword
  the constructor does not take included, is caught by the handler.
\<close>

definition store_created ::
  "manager \<Rightarrow> string \<Rightarrow> string \<Rightarrow> string \<Rightarrow> int \<Rightarrow> options \<Rightarrow> exn + honeypot
     \<Rightarrow> manager \<times> honeypot option" where
  "store_created m honeypot_id honeypot_type ip port opts constructed =
     (case constructed of
        Inl x \<Rightarrow> (logged Error ''Failed to create honeypot: '' (Some x) m, None)
      | Inr honeypot \<Rightarrow>
          (let m1 = logged Info (''Created '' @ honeypot_type @ '' honeypot with ID '' @ honeypot_id)
                      None (m\<lparr>honeypots := dict_set honeypot_id honeypot (honeypots m)\<rparr>)
           in case config m1 of
                NonDict \<Rightarrow>
                  (logged Error ''Failed to create honeypot: '' (Some AttributeError) m1, None)
              | Dict hs \<Rightarrow>
                  (case any_id honeypot_id (get_honeypots hs) of
                     Inl x \<Rightarrow> (logged Error ''Failed to create honeypot: '' (Some x) m1, None)
                   | Inr True \<Rightarrow> (m1, Some honeypot)
                   | Inr False \<Rightarrow>
                       (m1\<lparr>config := Dict (Some (get_honeypots hs @
                          [\<lparr>def_id = Some honeypot_id, def_type = Some honeypot_type,
                            def_ip = Some ip, def_port = Some port,
                            def_options = Some opts\<rparr>]))\<rparr>,
                        Some honeypot))))"

definition create_honeypot ::
  "env \<Rightarrow> manager \<Rightarrow> string \<Rightarrow> string \<Rightarrow> string \<Rightarrow> int \<Rightarrow> options
     \<Rightarrow> manager \<times> honeypot option" where
  "create_honeypot e m honeypot_id honeypot_type ip port opts =
     (case map_of (honeypots m) honeypot_id of
        Some existing \<Rightarrow>
          (logged Warning (''Honeypot with ID '' @ honeypot_id @ '' already exists'') None m,
           Some existing)
      | None \<Rightarrow>
          if upper e honeypot_type = ''SSH''
          then store_created m honeypot_id honeypot_type ip port opts
                 (construct e SSH honeypot_id ip port opts)
          else if upper e honeypot_type = ''WEB''
          then store_created m honeypot_id honeypot_type ip port opts
                 (construct e Web honeypot_id ip port opts)
          else (logged Error (''Unsupported honeypot type: '' @ honeypot_type) None m, None))"

text \<open>
  \<^verbatim>\<open>
  def remove_honeypot(self, honeypot_id):
      if honeypot_id not in self.honeypots:
          logger.warning(f"Honeypot with ID {honeypot_id} does not exist")
          return False
      honeypot = self.honeypots[honeypot_id]
      try:
          if honeypot.status == 'Active':
              asyncio.create_task(honeypot.stop())
          del self.honeypots[honeypot_id]
          self.config['honeypots'] = [
              h for h in self.config.get('honeypots', []) if h['id'] != honeypot_id]
          logger.info(f"Removed honeypot with ID {honeypot_id}")
          return True
      except Exception as e:
          logger.error(f"Failed to remove honeypot: {str(e)}")
          return False
  \<close>
  The stop scheduled for an Active instance runs detached from the manager: the instance has
  left the registry by then, so its outcome does not show in the manager state.
\<close>

definition remove_honeypot :: "env \<Rightarrow> manager \<Rightarrow> string \<Rightarrow> manager \<times> bool" where
  "remove_honeypot e m honeypot_id =
     (case map_of (honeypots m) honeypot_id of
        None \<Rightarrow>
          (logged Warning (''Honeypot with ID '' @ honeypot_id @ '' does not exist'') None m,
           False)
      | Some honeypot \<Rightarrow>
          if status honeypot = Active \<and> \<not> loop_running e
          then (logged Error ''Failed to remove honeypot: '' (Some RuntimeError) m, False)
          else
            (let m1 = m\<lparr>honeypots := dict_del honeypot_id (honeypots m)\<rparr>
             in case config m1 of
                  NonDict \<Rightarrow>
                    (logged Error ''Failed to remove honeypot: '' (Some AttributeError) m1, False)
                | Dict hs \<Rightarrow>
                    (case without_id honeypot_id (get_honeypots hs) of
                       Inl x \<Rightarrow>
                         (logged Error ''Failed to remove honeypot: '' (Some x) m1, False)
                     | Inr kept \<Rightarrow>
                         (logged Info (''Removed honeypot with ID '' @ honeypot_id) None
                            (m1\<lparr>config := Dict (Some kept)\<rparr>),
                          True))))"

definition get_honeypot :: "manager \<Rightarrow> string \<Rightarrow> honeypot option" where
  "get_honeypot m honeypot_id = map_of (honeypots m) honeypot_id"

text \<open>
  \<^verbatim>\<open>
  def get_honeypot_status(self, honeypot_id=None):
      if honeypot_id:
          honeypot = self.get_honeypot(honeypot_id)
          if honeypot:
              return honeypot.get_status()
          return None
      status = {}
      for hid, honeypot in self.honeypots.items():
          status[hid] = honeypot.get_status()
      return status
  \<close>
\<close>

datatype status_reply = StatusOf "honeypot option" | StatusAll "(string \<times> honeypot) list"

definition status_of_all :: "manager \<Rightarrow> (string \<times> honeypot) list" where
  "status_of_all m =
     fold (\<lambda>(hid, honeypot) st. dict_set hid (get_status honeypot) st) (honeypots m) []"

definition get_honeypot_status :: "manager \<Rightarrow> string option \<Rightarrow> status_reply" where
  "get_honeypot_status m honeypot_id =
     (case honeypot_id of
        None \<Rightarrow> StatusAll (status_of_all m)
      | Some hid \<Rightarrow>
          if hid \<noteq> [] then StatusOf (map_option get_status (get_honeypot m hid))
          else StatusAll (status_of_all m))"

subsection \<open>Lifecycle: \<open>start_all\<close>, \<open>start_honeypot\<close>\<close>

text \<open>
  The call \<open>self.create_honeypot(a, b, c, d, **kwargs)\<close> of the first loop. Python binds the
  receiver and the four positional arguments to \<open>self, honeypot_id, honeypot_type, ip, port\<close>
  and raises TypeError when \<open>kwargs\<close> has one of these names as a key; otherwise \<open>kwargs\<close> is
  what the method receives as \<open>options\<close>. The TypeError is raised at the call, outside the
  \<open>try\<close> of the method.
\<close>

definition parameter_names :: "string list" where
  "parameter_names = [''self'', ''honeypot_id'', ''honeypot_type'', ''ip'', ''port'']"

definition spreadable :: "options \<Rightarrow> bool" where
  "spreadable kwargs = list_all (\<lambda>p. fst p \<notin> set parameter_names) kwargs"

definition call_create_honeypot ::
  "env \<Rightarrow> manager \<Rightarrow> string \<Rightarrow> string \<Rightarrow> string \<Rightarrow> int \<Rightarrow> options
     \<Rightarrow> exn + manager \<times> honeypot option" where
  "call_create_honeypot e m honeypot_id honeypot_type ip port kwargs =
     (if spreadable kwargs
      then Inr (create_honeypot e m honeypot_id honeypot_type ip port kwargs)
      else Inl TypeError)"

text \<open>
  The first loop of \<open>start_all\<close>. \<open>honeypot_config['id']\<close> and \<open>honeypot_config['type']\<close>
  raise KeyError on an entry without the key, the call raises TypeError on options that name
  a parameter, and nothing in \<open>start_all\<close> catches either; the other three keys are read
  with \<open>get\<close> and a default. The result holds the manager as the loop left it and the
  exception, if one was raised.
\<close>

fun create_configured ::
  "env \<Rightarrow> manager \<Rightarrow> definition_entry list \<Rightarrow> manager \<times> exn option" where
  "create_configured e m [] = (m, None)"
| "create_configured e m (honeypot_config # rest) =
     (case def_id honeypot_config of
        None \<Rightarrow> (m, Some (KeyError ''id''))
      | Some honeypot_id \<Rightarrow>
          if map_of (honeypots m) honeypot_id \<noteq> None then create_configured e m rest
          else
            (case def_type honeypot_config of
               None \<Rightarrow> (m, Some (KeyError ''type''))
             | Some honeypot_type \<Rightarrow>
                 (case call_create_honeypot e m honeypot_id honeypot_type
                         (case def_ip honeypot_config of None \<Rightarrow> ''0.0.0.0'' | Some ip \<Rightarrow> ip)
                         (case def_port honeypot_config of None \<Rightarrow> 0 | Some port \<Rightarrow> port)
                         (case def_options honeypot_config of None \<Rightarrow> [] | Some opts \<Rightarrow> opts) of
                    Inl x \<Rightarrow> (m, Some x)
                  | Inr created \<Rightarrow> create_configured e (fst created) rest)))"

text \<open>
  \<open>asyncio.gather( *tasks, return_exceptions=...)\<close>, awaited: every task has settled when it
  returns. With \<open>return_exceptions=True\<close> an exception of a task is one of the results; with
  \<open>False\<close> the first exception is raised to the caller.
\<close>

fun first_exn :: "(exn + 'a) list \<Rightarrow> exn option" where
  "first_exn [] = None"
| "first_exn (Inl x # rs) = Some x"
| "first_exn (Inr v # rs) = first_exn rs"

definition gather :: "bool \<Rightarrow> (exn + 'a) list \<Rightarrow> exn + (exn + 'a) list" where
  "gather return_exceptions results =
     (if return_exceptions then Inr results
      else case first_exn results of None \<Rightarrow> Inr results | Some x \<Rightarrow> Inl x)"

text \<open>
  One task \<open>honeypot.start()\<close>: the instance as the task leaves it, and the exception the task
  ended with, if any.
\<close>

definition settle :: "env \<Rightarrow> honeypot \<Rightarrow> honeypot \<times> exn option" where
  "settle e honeypot =
     (case start e honeypot of Inl x \<Rightarrow> (honeypot, Some x) | Inr h \<Rightarrow> (h, None))"

text \<open>
  \<^verbatim>\<open>
  async def start_all(self):
      self.running = True
      tasks = []
      for honeypot_config in self.config.get('honeypots', []):
          honeypot_id = honeypot_config['id']
          if honeypot_id not in self.honeypots:
              self.create_honeypot(
                  honeypot_id, honeypot_config['type'],
                  honeypot_config.get('ip', '0.0.0.0'), honeypot_config.get('port', 0),
                  **honeypot_config.get('options', {}))
      for honeypot_id, honeypot in self.honeypots.items():
          logger.info(f"Starting honeypot {honeypot_id}")
          task = asyncio.create_task(honeypot.start())
          tasks.append(task)
      await asyncio.gather( *tasks, return_exceptions=True)
  \<close>
  The tasks only begin to run at the \<open>await\<close>, after the second loop has logged every id.
  Each task works on its own instance, so the order in which they run does not show in the
  result. The method returns nothing; the model returns the manager and either the exception
  raised to the caller or, per task in the order of \<open>tasks\<close>, the id and how the task
  settled.
\<close>

definition start_all ::
  "env \<Rightarrow> manager \<Rightarrow> manager \<times> (exn + (string \<times> exn option) list)" where
  "start_all e m =
     (let m0 = m\<lparr>running := True\<rparr>
      in case config m0 of
           NonDict \<Rightarrow> (m0, Inl AttributeError)
         | Dict hs \<Rightarrow>
             (case create_configured e m0 (get_honeypots hs) of
                (m1, Some x) \<Rightarrow> (m1, Inl x)
              | (m1, None) \<Rightarrow>
                  (let tasks = honeypots m1;
                       m2 = fold (\<lambda>(honeypot_id, honeypot).
                              logged Info (''Starting honeypot '' @ honeypot_id) None) tasks m1;
                       settled = map (\<lambda>(honeypot_id, honeypot).
                                   (honeypot_id, settle e honeypot)) tasks;
                       m3 = m2\<lparr>honeypots :=
                              map (\<lambda>(honeypot_id, r). (honeypot_id, fst r)) settled\<rparr>
                   in case gather True
                             (map (\<lambda>(honeypot_id, r).
                                case snd r of None \<Rightarrow> Inr () | Some x \<Rightarrow> Inl x) settled) of
                        Inl x \<Rightarrow> (m3, Inl x)
                      | Inr _ \<Rightarrow>
                          (m3, Inr (map (\<lambda>(honeypot_id, r). (honeypot_id, snd r)) settled)))))"

text \<open>
  \<^verbatim>\<open>
  async def start_honeypot(self, honeypot_id):
      honeypot = self.get_honeypot(honeypot_id)
      if not honeypot:
          logger.warning(f"Honeypot with ID {honeypot_id} does not exist")
          return False
      try:
          if honeypot.status != 'Active':
              await honeypot.start()
              logger.info(f"Started honeypot {honeypot_id}")
          return True
      except Exception as e:
          logger.error(f"Failed to start honeypot {honeypot_id}: {str(e)}")
          return False
  \<close>
\<close>

definition start_honeypot :: "env \<Rightarrow> manager \<Rightarrow> string \<Rightarrow> manager \<times> bool" where
  "start_honeypot e m honeypot_id =
     (case get_honeypot m honeypot_id of
        None \<Rightarrow>
          (logged Warning (''Honeypot with ID '' @ honeypot_id @ '' does not exist'') None m,
           False)
      | Some honeypot \<Rightarrow>
          if status honeypot \<noteq> Active
          then (case start e honeypot of
                  Inl x \<Rightarrow>
                    (logged Error (''Failed to start honeypot '' @ honeypot_id @ '': '')
                       (Some x) m, False)
                | Inr h \<Rightarrow>
                    (logged Info (''Started honeypot '' @ honeypot_id) None
                       (m\<lparr>honeypots := dict_set honeypot_id h (honeypots m)\<rparr>), True))
          else (m, True))"

subsection \<open>Notions the properties are stated with\<close>

text \<open>The definition set a configuration holds: the entries under \<open>'honeypots'\<close>.\<close>

fun definitions :: "config \<Rightarrow> definition_entry list" where
  "definitions NonDict = []"
| "definitions (Dict hs) = get_honeypots hs"

text \<open>How many stored definitions carry a given id.\<close>

definition count_defs :: "string \<Rightarrow> config \<Rightarrow> nat" where
  "count_defs k c = length (filter (\<lambda>d. def_id d = Some k) (definitions c))"

text \<open>How many registered instances are stored under a given id.\<close>

definition count_instances :: "string \<Rightarrow> manager \<Rightarrow> nat" where
  "count_instances k m = length (filter (\<lambda>p. fst p = k) (honeypots m))"

text \<open>A Python dict holds a key once.\<close>

definition dict_ok :: "('k \<times> 'v) list \<Rightarrow> bool" where
  "dict_ok d = distinct (map fst d)"

text \<open>
  A store as the data model of the spec describes it: a mapping whose entries all have an
  id, no id twice.
\<close>

fun store_ok :: "config \<Rightarrow> bool" where
  "store_ok NonDict = False"
| "store_ok (Dict hs) =
     (list_all (\<lambda>d. def_id d \<noteq> None) (get_honeypots hs)
      \<and> distinct (map def_id (get_honeypots hs)))"

text \<open>Every registered instance has exactly one stored definition with its id.\<close>

definition registry_consistent :: "manager \<Rightarrow> bool" where
  "registry_consistent m = list_all (\<lambda>p. count_defs (fst p) (config m) = 1) (honeypots m)"

text \<open>The three conditions that the registry operations keep.\<close>

definition manager_inv :: "manager \<Rightarrow> bool" where
  "manager_inv m = (dict_ok (honeypots m) \<and> store_ok (config m) \<and> registry_consistent m)"

text \<open>
  A configuration that the first loop of \<open>start_all\<close> can read: a mapping whose entries have
  the keys \<open>id\<close> and \<open>type\<close> and no option named like a parameter of \<open>create_honeypot\<close>.
\<close>

definition startable :: "config \<Rightarrow> bool" where
  "startable c =
     (case c of
        NonDict \<Rightarrow> False
      | Dict hs \<Rightarrow>
          list_all (\<lambda>d. def_id d \<noteq> None \<and> def_type d \<noteq> None
                         \<and> spreadable (case def_options d of None \<Rightarrow> [] | Some opts \<Rightarrow> opts))
            (get_honeypots hs))"

text \<open>Sequences of the two registry operations.\<close>

datatype operation = Create string string string int options | Remove string

fun apply_operation :: "env \<Rightarrow> operation \<Rightarrow> manager \<Rightarrow> manager" where
  "apply_operation e (Create honeypot_id honeypot_type ip port opts) m =
     fst (create_honeypot e m honeypot_id honeypot_type ip port opts)"
| "apply_operation e (Remove honeypot_id) m = fst (remove_honeypot e m honeypot_id)"

definition run_operations :: "env \<Rightarrow> operation list \<Rightarrow> manager \<Rightarrow> manager" where
  "run_operations e ops m = fold (apply_operation e) ops m"

subsection \<open>Sample collaborators\<close>

text \<open>
  A YAML library whose documents are the values themselves, \<open>None\<close> being a document that
  does not parse; a file system with one such document and nothing else; collaborators that
  never fail, and collaborators where the start of the SSH decoys fails.
\<close>

definition plain_yaml :: "config option yaml" where
  "plain_yaml = \<lparr>safe_load = (\<lambda>d. d), dump = Some\<rparr>"

definition empty_os :: "config option os" where
  "empty_os = \<lparr>nodes = (\<lambda>p. Absent), write_denied = (\<lambda>p. False)\<rparr>"

definition sample_os :: "config option os" where
  "sample_os = \<lparr>nodes = (\<lambda>p. if p = ''bad.yaml'' then File None else Absent),
                 write_denied = (\<lambda>p. False)\<rparr>"

text \<open>
  A stand-in for the Unicode case mapping that knows one character outside ASCII, the sharp
  s (bytes \<open>c3 9f\<close>), which becomes \<open>SS\<close>.
\<close>

fun sample_unicode_upper :: "string \<Rightarrow> string" where
  "sample_unicode_upper [] = []"
| "sample_unicode_upper [c] = [upper_char c]"
| "sample_unicode_upper (c # d # cs) =
     (if c = CHR 0xC3 \<and> d = CHR 0x9F then ''SS'' @ sample_unicode_upper cs
      else upper_char c # sample_unicode_upper (d # cs))"

definition healthy_env :: env where
  "healthy_env = \<lparr>ctor_raises = (\<lambda>k hid ip port opts. False),
                   start_raises = (\<lambda>h. False), loop_running = True,
                   unicode_upper = sample_unicode_upper\<rparr>"

definition ssh_failing_env :: env where
  "ssh_failing_env = \<lparr>ctor_raises = (\<lambda>k hid ip port opts. False),
                       start_raises = (\<lambda>h. hp_kind h = SSH), loop_running = True,
                       unicode_upper = sample_unicode_upper\<rparr>"

definition fresh_manager :: manager where
  "fresh_manager = HoneypotManager plain_yaml empty_os None"

definition created_manager :: manager where
  "created_manager =
     fst (create_honeypot healthy_env fresh_manager ''decoy-3'' ''ssh'' ''0.0.0.0'' 2200 [])"

section \<open>Properties\<close>

subsection \<open>Auxiliary facts\<close>

lemmas eval_defs = fresh_manager_def HoneypotManager_def default_config_def
  create_honeypot_def store_created_def construct_def logged_def upper_def upper_char_def
  is_ascii_def call_create_honeypot_def spreadable_def parameter_names_def
  healthy_env_def ssh_failing_env_def start_honeypot_def get_honeypot_def start_def
  remove_honeypot_def start_all_def settle_def gather_def get_honeypot_status_def
  status_of_all_def get_status_def 

lemma upper_samples:
  "upper e ''ssh'' = ''SSH''" "upper e ''Ssh'' = ''SSH''" "upper e ''SSH'' = ''SSH''"
  "upper e ''Web'' = ''WEB''" "upper e ''web'' = ''WEB''" "upper e ''UNKNOWN'' = ''UNKNOWN''"
  by (simp_all add: upper_def upper_char_def is_ascii_def)

lemma upper_sharp_s: "upper healthy_env [CHR 0xC3, CHR 0x9F, CHR ''h''] = ''SSH''"
  by (simp add: upper_def upper_char_def is_ascii_def healthy_env_def)

lemma map_of_dict_set_same: "map_of (dict_set k v d) k = Some v"
  by (induction d) auto

lemma dict_set_fresh: "map_of d k = None \<Longrightarrow> dict_set k v d = d @ [(k, v)]"
  by (induction d) (auto split: if_splits)

lemma keys_dict_set_present:
  "map_of d k \<noteq> None \<Longrightarrow> map fst (dict_set k v d) = map fst d"
  by (induction d) auto

lemma dict_ok_dict_set: "dict_ok d \<Longrightarrow> dict_ok (dict_set k v d)"
proof (cases "map_of d k")
  case None
  assume "dict_ok d"
  with None show ?thesis
    by (simp add: dict_set_fresh dict_ok_def map_of_eq_None_iff)
next
  case (Some a)
  assume "dict_ok d"
  with Some show ?thesis
    by (simp add: keys_dict_set_present dict_ok_def)
qed

lemma count_one_of_dict_ok:
  "dict_ok d \<Longrightarrow> map_of d k = Some v \<Longrightarrow> length (filter (\<lambda>p. fst p = k) d) = 1"
proof (induction d)
  case Nil
  then show ?case by simp
next
  case (Cons p d)
  show ?case
  proof (cases "fst p = k")
    case True
    with Cons.prems have "k \<notin> fst ` set d" by (auto simp: dict_ok_def)
    then have "filter (\<lambda>p. fst p = k) d = []" by (auto simp: filter_empty_conv)
    with True show ?thesis by simp
  next
    case False
    with Cons show ?thesis by (auto simp: dict_ok_def)
  qed
qed

lemma count_le_one_of_dict_ok:
  "dict_ok d \<Longrightarrow> length (filter (\<lambda>p. fst p = k) d) \<le> 1"
proof (cases "map_of d k")
  case None
  then have "filter (\<lambda>p. fst p = k) d = []"
    by (auto simp: filter_empty_conv map_of_eq_None_iff)
  then show ?thesis by simp
next
  case (Some v)
  assume "dict_ok d"
  with Some show ?thesis by (simp add: count_one_of_dict_ok)
qed

lemma store_created_registers:
  "map_of (honeypots m) hid = None \<Longrightarrow>
   honeypots (fst (store_created m hid t ip port opts (Inr h))) = honeypots m @ [(hid, h)]"
  by (simp add: store_created_def logged_def dict_set_fresh Let_def
      split: config.splits sum.splits bool.splits)

lemma create_honeypot_existing:
  "map_of (honeypots m) hid = Some h \<Longrightarrow>
   create_honeypot e m hid t ip port opts
     = (logged Warning (''Honeypot with ID '' @ hid @ '' already exists'') None m, Some h)"
  by (simp add: create_honeypot_def)

lemma store_created_dict_ok:
  "dict_ok (honeypots m) \<Longrightarrow> dict_ok (honeypots (fst (store_created m hid t ip port opts r)))"
  by (auto simp: store_created_def logged_def dict_ok_dict_set Let_def
      split: config.splits sum.splits bool.splits)

lemma create_honeypot_dict_ok:
  "dict_ok (honeypots m) \<Longrightarrow> dict_ok (honeypots (fst (create_honeypot e m hid t ip port opts)))"
  by (auto simp: create_honeypot_def store_created_dict_ok logged_def split: option.splits)

lemma create_configured_no_exception:
  "list_all (\<lambda>d. def_id d \<noteq> None \<and> def_type d \<noteq> None
                   \<and> spreadable (case def_options d of None \<Rightarrow> [] | Some opts \<Rightarrow> opts)) ds
   \<Longrightarrow> snd (create_configured e m ds) = None"
  by (induction ds arbitrary: m) (auto simp: call_create_honeypot_def split: option.splits)

lemma start_all_keyword_clash:
  "snd (start_all healthy_env
          (fresh_manager\<lparr>config := Dict (Some
             [\<lparr>def_id = Some ''a'', def_type = Some ''ssh'', def_ip = None, def_port = None,
               def_options = Some [(''port'', ''1'')]\<rparr>])\<rparr>))
     = Inl TypeError"
  by (simp add: eval_defs)

lemma construct_ignores_start:
  "construct (e\<lparr>start_raises := f\<rparr>) k hid ip port opts = construct e k hid ip port opts"
  by (simp add: construct_def)

lemma create_honeypot_ignores_start:
  "create_honeypot (e\<lparr>start_raises := f\<rparr>) m hid t ip port opts
     = create_honeypot e m hid t ip port opts"
  by (simp add: create_honeypot_def construct_ignores_start upper_def split: option.splits)

lemma create_configured_ignores_start:
  "create_configured (e\<lparr>start_raises := f\<rparr>) m ds = create_configured e m ds"
  by (induction ds arbitrary: m)
    (auto simp: call_create_honeypot_def create_honeypot_ignores_start split: option.splits)

lemma fst_settle:
  "fst (settle e h) = (if start_raises e h then h else h\<lparr>status := Active\<rparr>)"
  by (simp add: settle_def start_def)

lemma snd_settle:
  "snd (settle e h) = (if start_raises e h then Some StartFailure else None)"
  by (simp add: settle_def start_def)

lemma any_id_all_ids:
  "list_all (\<lambda>d. def_id d \<noteq> None) ds \<Longrightarrow> any_id k ds = Inr (Some k \<in> set (map def_id ds))"
  by (induction ds) auto

lemma without_id_all_ids:
  "list_all (\<lambda>d. def_id d \<noteq> None) ds
   \<Longrightarrow> without_id k ds = Inr (filter (\<lambda>d. def_id d \<noteq> Some k) ds)"
  by (induction ds) auto

lemma count_absent_id:
  "Some k \<notin> set (map def_id ds) \<Longrightarrow> filter (\<lambda>d. def_id d = Some k) ds = []"
  by (induction ds) auto

lemma count_of_distinct_ids:
  "distinct (map def_id ds) \<Longrightarrow> Some k \<in> set (map def_id ds)
   \<Longrightarrow> length (filter (\<lambda>d. def_id d = Some k) ds) = 1"
proof (induction ds)
  case Nil
  then show ?case by simp
next
  case (Cons d ds)
  show ?case
  proof (cases "def_id d = Some k")
    case True
    with Cons.prems have "Some k \<notin> set (map def_id ds)" by auto
    then have "filter (\<lambda>d. def_id d = Some k) ds = []" by (rule count_absent_id)
    with True show ?thesis by simp
  next
    case False
    with Cons show ?thesis by auto
  qed
qed

lemma filter_other_id:
  "k \<noteq> hid \<Longrightarrow>
   filter (\<lambda>d. def_id d = Some k) (filter (\<lambda>d. def_id d \<noteq> Some hid) ds)
     = filter (\<lambda>d. def_id d = Some k) ds"
  by (induction ds) auto

lemma set_dict_del: "set (dict_del k d) \<subseteq> set d"
  by (induction d) auto

lemma keys_dict_del: "dict_ok d \<Longrightarrow> fst ` set (dict_del k d) = fst ` set d - {k}"
  by (induction d) (force simp: dict_ok_def)+

lemma dict_ok_dict_del: "dict_ok d \<Longrightarrow> dict_ok (dict_del k d)"
proof (induction d)
  case Nil
  then show ?case by (simp add: dict_ok_def)
next
  case (Cons p d)
  then have "dict_ok d" by (simp add: dict_ok_def)
  with Cons keys_dict_del [of d k] show ?case
    by (auto simp: dict_ok_def)
qed

lemma logged_fields [simp]:
  "honeypots (logged l s x m) = honeypots m" "config (logged l s x m) = config m"
  by (simp_all add: logged_def)

lemma manager_inv_logged [simp]: "manager_inv (logged l s x m) = manager_inv m"
  by (simp add: manager_inv_def registry_consistent_def)

lemma store_created_inv:
  assumes "manager_inv m" and fresh: "map_of (honeypots m) hid = None"
  shows "manager_inv (fst (store_created m hid t ip port opts r))"
proof (cases r)
  case (Inl x)
  with assms show ?thesis by (simp add: store_created_def)
next
  case (Inr h)
  from assms obtain hs where c: "config m = Dict hs"
    and ids: "list_all (\<lambda>d. def_id d \<noteq> None) (get_honeypots hs)"
    and dist: "distinct (map def_id (get_honeypots hs))"
    by (cases "config m") (auto simp: manager_inv_def)
  from assms have ok: "dict_ok (honeypots m)" and rc: "registry_consistent m"
    by (simp_all add: manager_inv_def)
  show ?thesis
  proof (cases "Some hid \<in> set (map def_id (get_honeypots hs))")
    case True
    then have cnt: "count_defs hid (config m) = 1"
      using count_of_distinct_ids [OF dist True] by (simp add: count_defs_def c)
    have res: "fst (store_created m hid t ip port opts r)
        = logged Info (''Created '' @ t @ '' honeypot with ID '' @ hid) None
            (m\<lparr>honeypots := honeypots m @ [(hid, h)]\<rparr>)"
      using Inr c True any_id_all_ids [OF ids, of hid] fresh
      by (simp add: store_created_def Let_def dict_set_fresh)
    show ?thesis
      unfolding res using ok rc cnt c ids dist fresh
      by (simp add: manager_inv_def registry_consistent_def dict_ok_def map_of_eq_None_iff)
  next
    case False
    have res: "fst (store_created m hid t ip port opts r)
        = (logged Info (''Created '' @ t @ '' honeypot with ID '' @ hid) None
            (m\<lparr>honeypots := honeypots m @ [(hid, h)]\<rparr>))
          \<lparr>config := Dict (Some (get_honeypots hs @
             [\<lparr>def_id = Some hid, def_type = Some t, def_ip = Some ip, def_port = Some port,
               def_options = Some opts\<rparr>]))\<rparr>"
      using Inr c False any_id_all_ids [OF ids, of hid] fresh
      by (simp add: store_created_def Let_def dict_set_fresh)
    have absent: "filter (\<lambda>d. def_id d = Some hid) (get_honeypots hs) = []"
      using count_absent_id [OF False] .
    have others: "list_all (\<lambda>p. fst p \<noteq> hid) (honeypots m)"
      using fresh by (auto simp: list_all_iff map_of_eq_None_iff)
    have rc': "list_all (\<lambda>p. length (filter (\<lambda>d. def_id d = Some (fst p)) (get_honeypots hs)) = 1)
                 (honeypots m)"
      using rc c by (simp add: registry_consistent_def count_defs_def)
    show ?thesis
      unfolding res using ok ids dist fresh False absent others rc'
      by (auto simp: manager_inv_def registry_consistent_def dict_ok_def map_of_eq_None_iff
          count_defs_def logged_def list_all_iff)
  qed
qed

lemma create_honeypot_inv:
  "manager_inv m \<Longrightarrow> manager_inv (fst (create_honeypot e m hid t ip port opts))"
  by (auto simp: create_honeypot_def store_created_inv split: option.splits)

lemma remove_honeypot_inv:
  assumes "manager_inv m"
  shows "manager_inv (fst (remove_honeypot e m hid))"
proof -
  from assms obtain hs where c: "config m = Dict hs"
    and ids: "list_all (\<lambda>d. def_id d \<noteq> None) (get_honeypots hs)"
    and dist: "distinct (map def_id (get_honeypots hs))"
    by (cases "config m") (auto simp: manager_inv_def)
  from assms have ok: "dict_ok (honeypots m)" and rc: "registry_consistent m"
    by (simp_all add: manager_inv_def)
  let ?m' = "m\<lparr>honeypots := dict_del hid (honeypots m),
                config := Dict (Some (filter (\<lambda>d. def_id d \<noteq> Some hid) (get_honeypots hs)))\<rparr>"
  have keep: "length (filter (\<lambda>d. def_id d = Some k)
                 (filter (\<lambda>d. def_id d \<noteq> Some hid) (get_honeypots hs)))
              = length (filter (\<lambda>d. def_id d = Some k) (get_honeypots hs))"
    if "k \<noteq> hid" for k
    using filter_other_id [OF that, of "get_honeypots hs"] by (rule arg_cong)
  have "manager_inv ?m'"
  proof -
    have a: "dict_ok (honeypots ?m')" using ok by (simp add: dict_ok_dict_del)
    have b: "store_ok (config ?m')"
      using ids dist by (auto simp: list_all_iff distinct_map_filter)
    have "count_defs (fst p) (config ?m') = 1" if p: "p \<in> set (dict_del hid (honeypots m))" for p
    proof -
      from p keys_dict_del [OF ok, of hid] have ne: "fst p \<noteq> hid" by auto
      from p set_dict_del [of hid "honeypots m"] have "p \<in> set (honeypots m)" by auto
      with rc c have "length (filter (\<lambda>d. def_id d = Some (fst p)) (get_honeypots hs)) = 1"
        by (simp add: registry_consistent_def count_defs_def list_all_iff)
      with keep [OF ne] show ?thesis by (simp add: count_defs_def)
    qed
    then have "registry_consistent ?m'"
      by (simp add: registry_consistent_def list_all_iff)
    with a b show ?thesis by (simp add: manager_inv_def)
  qed
  then show ?thesis
    using assms c without_id_all_ids [OF ids, of hid]
    by (auto simp: remove_honeypot_def Let_def split: option.splits)
qed

lemma apply_operation_inv: "manager_inv m \<Longrightarrow> manager_inv (apply_operation e op m)"
  by (cases op) (simp_all add: create_honeypot_inv remove_honeypot_inv)

lemma run_operations_inv: "manager_inv m \<Longrightarrow> manager_inv (run_operations e ops m)"
  unfolding run_operations_def
  by (induction ops arbitrary: m) (simp_all add: apply_operation_inv)

subsection \<open>Creating an instance\<close>

text \<open>
  Claim C1. Calling \<open>create_honeypot\<close> twice with the same id never leaves more than one
  instance registered under that id. When the first call has registered an instance (which
  it has whenever it returned one), the second call, whatever its other arguments and
  whatever the collaborators do, returns that very instance, leaves the registry and the
  stored definitions as they were, so exactly one instance is registered under the id, and
  adds one log entry, a warning.
\<close>

theorem create_honeypot_twice:
  assumes ok: "dict_ok (honeypots m)"
    and first: "create_honeypot e m hid t ip port opts = (m1, r1)"
    and second: "create_honeypot e' m1 hid t' ip' port' opts' = (m2, r2)"
  shows "count_instances hid m2 \<le> 1
         \<and> (\<forall>h. map_of (honeypots m1) hid = Some h \<longrightarrow>
               r2 = Some h
               \<and> count_instances hid m2 = 1
               \<and> honeypots m2 = honeypots m1 \<and> config m2 = config m1
               \<and> log m2 = log m1 @ [Log Warning (''Honeypot with ID '' @ hid @ '' already exists'') None])
         \<and> (\<forall>h. r1 = Some h \<longrightarrow> map_of (honeypots m1) hid = Some h)"
proof -
  have ok1: "dict_ok (honeypots m1)"
    using create_honeypot_dict_ok [OF ok, of e hid t ip port opts] first by simp
  have ok2: "dict_ok (honeypots m2)"
    using create_honeypot_dict_ok [OF ok1, of e' hid t' ip' port' opts'] second by simp
  have a: "count_instances hid m2 \<le> 1"
    using count_le_one_of_dict_ok [OF ok2, of hid] by (simp add: count_instances_def)
  have b: "r2 = Some h \<and> count_instances hid m2 = 1
           \<and> honeypots m2 = honeypots m1 \<and> config m2 = config m1
           \<and> log m2 = log m1 @ [Log Warning (''Honeypot with ID '' @ hid @ '' already exists'') None]"
    if reg: "map_of (honeypots m1) hid = Some h" for h
  proof -
    have eq: "(m2, r2) = (logged Warning (''Honeypot with ID '' @ hid @ '' already exists'') None m1, Some h)"
      using create_honeypot_existing [OF reg, of e' t' ip' port' opts'] second by simp
    then have "honeypots m2 = honeypots m1" by (simp add: logged_def)
    with count_one_of_dict_ok [OF ok1 reg] have "count_instances hid m2 = 1"
      by (simp add: count_instances_def)
    with eq show ?thesis by (simp add: logged_def)
  qed
  have c: "map_of (honeypots m1) hid = Some h" if r: "r1 = Some h" for h
    using first r
    by (auto simp: create_honeypot_def store_created_def logged_def Let_def construct_def
        map_of_dict_set_same
        split: option.splits if_splits sum.splits config.splits bool.splits)
  from a b c show ?thesis by blast
qed


theorem create_honeypot_twice_witness:
  "dict_ok (honeypots fresh_manager)
   \<and> snd (create_honeypot ssh_failing_env
            (fst (create_honeypot healthy_env fresh_manager ''a'' ''ssh'' ''0.0.0.0'' 2200 []))
            ''a'' ''web'' ''10.0.0.1'' 8000 [(''k'', ''v'')])
       = snd (create_honeypot healthy_env fresh_manager ''a'' ''ssh'' ''0.0.0.0'' 2200 [])
   \<and> count_instances ''a''
        (fst (create_honeypot ssh_failing_env
            (fst (create_honeypot healthy_env fresh_manager ''a'' ''ssh'' ''0.0.0.0'' 2200 []))
            ''a'' ''web'' ''10.0.0.1'' 8000 [(''k'', ''v'')])) = 1"
  using create_honeypot_twice [of fresh_manager healthy_env "''a''" "''ssh''" "''0.0.0.0''" 2200 "[]"
      "fst (create_honeypot healthy_env fresh_manager ''a'' ''ssh'' ''0.0.0.0'' 2200 [])"
      "snd (create_honeypot healthy_env fresh_manager ''a'' ''ssh'' ''0.0.0.0'' 2200 [])"
      ssh_failing_env "''web''" "''10.0.0.1''" 8000 "[(''k'', ''v'')]"
      "fst (create_honeypot ssh_failing_env
            (fst (create_honeypot healthy_env fresh_manager ''a'' ''ssh'' ''0.0.0.0'' 2200 []))
            ''a'' ''web'' ''10.0.0.1'' 8000 [(''k'', ''v'')])"
      "snd (create_honeypot ssh_failing_env
            (fst (create_honeypot healthy_env fresh_manager ''a'' ''ssh'' ''0.0.0.0'' 2200 []))
            ''a'' ''web'' ''10.0.0.1'' 8000 [(''k'', ''v'')])"]
  by (simp add: eval_defs dict_ok_def count_instances_def)

text \<open>
  Claim C10. For an id that is not registered, the type tag is compared after \<open>upper()\<close>,
  Python's own upper-casing, whatever it does outside ASCII: a tag whose upper-casing is
  \<open>SSH\<close> runs the rest of the method on the result of the SSH constructor, and registers an
  SSH instance in state Inactive when that constructor does not raise; likewise \<open>WEB\<close> and
  the Web constructor; any other tag logs the error \<open>Unsupported honeypot type\<close>, returns
  nothing and leaves registry and definitions unchanged.
\<close>

theorem create_honeypot_type_dispatch:
  assumes fresh: "map_of (honeypots m) hid = None"
  shows "(upper e t = ''SSH'' \<longrightarrow>
            create_honeypot e m hid t ip port opts
              = store_created m hid t ip port opts (construct e SSH hid ip port opts)
            \<and> (\<not> ctor_raises e SSH hid ip port opts \<longrightarrow>
                 honeypots (fst (create_honeypot e m hid t ip port opts))
                   = honeypots m @ [(hid, \<lparr>hp_id = hid, hp_kind = SSH, hp_ip = ip,
                        hp_port = port, hp_options = opts, status = Inactive\<rparr>)]))
         \<and> (upper e t = ''WEB'' \<longrightarrow>
            create_honeypot e m hid t ip port opts
              = store_created m hid t ip port opts (construct e Web hid ip port opts)
            \<and> (\<not> ctor_raises e Web hid ip port opts \<longrightarrow>
                 honeypots (fst (create_honeypot e m hid t ip port opts))
                   = honeypots m @ [(hid, \<lparr>hp_id = hid, hp_kind = Web, hp_ip = ip,
                        hp_port = port, hp_options = opts, status = Inactive\<rparr>)]))
         \<and> (upper e t \<noteq> ''SSH'' \<and> upper e t \<noteq> ''WEB'' \<longrightarrow>
            create_honeypot e m hid t ip port opts
              = (logged Error (''Unsupported honeypot type: '' @ t) None m, None)
            \<and> honeypots (fst (create_honeypot e m hid t ip port opts)) = honeypots m
            \<and> config (fst (create_honeypot e m hid t ip port opts)) = config m)"
  using fresh
  by (auto simp: create_honeypot_def construct_def store_created_registers logged_def)

theorem create_honeypot_type_dispatch_witness:
  "map (\<lambda>p. (fst p, hp_kind (snd p)))
     (honeypots (fst (create_honeypot healthy_env fresh_manager ''a'' ''Ssh'' ''0.0.0.0'' 2200 [])))
     = [(''a'', SSH)]
   \<and> map (\<lambda>p. (fst p, hp_kind (snd p)))
     (honeypots (fst (create_honeypot healthy_env fresh_manager ''b'' ''web'' ''0.0.0.0'' 8000 [])))
     = [(''b'', Web)]
   \<and> map (\<lambda>p. (fst p, hp_kind (snd p)))
     (honeypots (fst (create_honeypot healthy_env fresh_manager ''c''
        [CHR 0xC3, CHR 0x9F, CHR ''h''] ''0.0.0.0'' 2201 [])))
     = [(''c'', SSH)]
   \<and> create_honeypot healthy_env fresh_manager ''x'' ''UNKNOWN'' ''0.0.0.0'' 1234 []
     = (logged Error ''Unsupported honeypot type: UNKNOWN'' None fresh_manager, None)"
  using create_honeypot_type_dispatch [where m = fresh_manager and hid = "''a''" and t = "''Ssh''"
      and e = healthy_env and ip = "''0.0.0.0''" and port = 2200 and opts = "[]"]
    create_honeypot_type_dispatch [where m = fresh_manager and hid = "''b''" and t = "''web''"
      and e = healthy_env and ip = "''0.0.0.0''" and port = 8000 and opts = "[]"]
    create_honeypot_type_dispatch [where m = fresh_manager and hid = "''c''"
      and t = "[CHR 0xC3, CHR 0x9F, CHR ''h'']"
      and e = healthy_env and ip = "''0.0.0.0''" and port = 2201 and opts = "[]"]
    create_honeypot_type_dispatch [where m = fresh_manager and hid = "''x''" and t = "''UNKNOWN''"
      and e = healthy_env and ip = "''0.0.0.0''" and port = 1234 and opts = "[]"]
  by (simp add: eval_defs)

subsection \<open>Starting one instance\<close>

text \<open>
  Claim C5. \<open>start_honeypot\<close> on an id that is not registered logs a warning and returns
  False; on an Active instance it changes nothing and returns True; on an instance that is
  not Active it starts it, after which the instance is Active, and returns True; and when the
  start raises, the exception is logged as an error and the result is False. The method
  has no other outcome: its result is always a Boolean, never an exception.
\<close>

theorem start_honeypot_outcomes:
  "(get_honeypot m hid = None \<longrightarrow>
      start_honeypot e m hid
        = (logged Warning (''Honeypot with ID '' @ hid @ '' does not exist'') None m, False))
   \<and> (\<forall>h. get_honeypot m hid = Some h \<and> status h = Active \<longrightarrow>
          start_honeypot e m hid = (m, True))
   \<and> (\<forall>h. get_honeypot m hid = Some h \<and> status h \<noteq> Active \<and> \<not> start_raises e h \<longrightarrow>
          snd (start_honeypot e m hid) = True
          \<and> get_honeypot (fst (start_honeypot e m hid)) hid = Some (h\<lparr>status := Active\<rparr>)
          \<and> map fst (honeypots (fst (start_honeypot e m hid))) = map fst (honeypots m))
   \<and> (\<forall>h. get_honeypot m hid = Some h \<and> status h \<noteq> Active \<and> start_raises e h \<longrightarrow>
          start_honeypot e m hid
            = (logged Error (''Failed to start honeypot '' @ hid @ '': '') (Some StartFailure) m,
               False))"
  by (auto simp: start_honeypot_def get_honeypot_def start_def logged_def
      map_of_dict_set_same keys_dict_set_present)

theorem start_honeypot_outcomes_witness:
  "snd (start_honeypot healthy_env fresh_manager ''decoy-3'') = False
   \<and> snd (start_honeypot healthy_env created_manager ''decoy-3'') = True
   \<and> map_option status
        (get_honeypot (fst (start_honeypot healthy_env created_manager ''decoy-3''))
           ''decoy-3'') = Some Active
   \<and> snd (start_honeypot ssh_failing_env created_manager ''decoy-3'') = False
   \<and> start_honeypot ssh_failing_env
        (fst (start_honeypot healthy_env created_manager ''decoy-3'')) ''decoy-3''
      = (fst (start_honeypot healthy_env created_manager ''decoy-3''), True)"
  using start_honeypot_outcomes [of fresh_manager "''decoy-3''" healthy_env]
    start_honeypot_outcomes [of created_manager "''decoy-3''" healthy_env]
    start_honeypot_outcomes [of created_manager "''decoy-3''" ssh_failing_env]
    start_honeypot_outcomes [of "fst (start_honeypot healthy_env created_manager ''decoy-3'')"
       "''decoy-3''" ssh_failing_env]
  by (simp add: created_manager_def eval_defs)


subsection \<open>Loading and saving the configuration\<close>

text \<open>
  Claim C6. When the document at the path does not parse, \<open>load_config\<close> leaves the manager
  with the configuration \<open>{'honeypots': []}\<close>, whatever definitions it held before: the
  definition set is empty. The registry is untouched and the failure is logged as an error.
\<close>

theorem load_config_malformed:
  assumes "nodes os p = File d" and "safe_load y d = None"
  shows "config (load_config y os m p) = Dict (Some [])
         \<and> definitions (config (load_config y os m p)) = []
         \<and> honeypots (load_config y os m p) = honeypots m
         \<and> log (load_config y os m p)
             = log m @ [Log Error ''Failed to load configuration: '' (Some YAMLError)]"
  using assms by (simp add: load_config_def logged_def)

theorem load_config_malformed_witness:
  "nodes sample_os ''bad.yaml'' = File None \<and> safe_load plain_yaml None = None
   \<and> definitions (config (load_config plain_yaml sample_os fresh_manager ''bad.yaml'')) = []"
  using load_config_malformed [of sample_os "''bad.yaml''" None plain_yaml fresh_manager]
  by (simp add: sample_os_def plain_yaml_def)

text \<open>
  Claim C7, as stated: an absent or unparsable configuration source yields the built-in
  two-entry default set. It fails for an unparsable source: a manager constructed on an
  existing file that does not parse holds the empty definition set, not the default one.
\<close>

theorem unparsable_source_counterexample:
  "config (HoneypotManager plain_yaml sample_os (Some ''bad.yaml'')) = Dict (Some [])
   \<and> config (HoneypotManager plain_yaml sample_os (Some ''bad.yaml'')) \<noteq> default_config"
  by (simp add: HoneypotManager_def load_config_def logged_def sample_os_def plain_yaml_def
      default_config_def)

text \<open>
  Claim C7, amended. When no source is supplied, or the named source does not exist, the
  manager holds the built-in default set, which has two entries, of type \<open>SSH\<close> and \<open>Web\<close>.
  When a named source (a path that is not the empty string) exists and its content does not
  parse, the manager holds the empty definition set.
\<close>

theorem config_source_absent_or_unparsable:
  "(cf = None \<or> (\<exists>p. cf = Some p \<and> nodes os p = Absent)
      \<longrightarrow> config (HoneypotManager y os cf) = default_config)
   \<and> (\<forall>p d. cf = Some p \<and> p \<noteq> [] \<and> nodes os p = File d \<and> safe_load y d = None
      \<longrightarrow> config (HoneypotManager y os cf) = Dict (Some []))
   \<and> (\<exists>a b. default_config = Dict (Some [a, b])
         \<and> def_type a = Some ''SSH'' \<and> def_type b = Some ''Web'')"
  by (auto simp: HoneypotManager_def load_config_def logged_def default_config_def)

theorem config_source_absent_or_unparsable_witness:
  "config (HoneypotManager plain_yaml sample_os None) = default_config
   \<and> config (HoneypotManager plain_yaml sample_os (Some ''none.yaml'')) = default_config
   \<and> config (HoneypotManager plain_yaml sample_os (Some ''bad.yaml'')) = Dict (Some [])"
  using config_source_absent_or_unparsable [of None sample_os plain_yaml]
    config_source_absent_or_unparsable [of "Some ''none.yaml''" sample_os plain_yaml]
    config_source_absent_or_unparsable [of "Some ''bad.yaml''" sample_os plain_yaml]
  by (simp add: sample_os_def plain_yaml_def)

text \<open>
  Claim C8. Saving the configuration to a path that can be written and then loading that
  path, in the same or in another manager, gives back the configuration that was saved, hence
  the same definitions in the same order with the same ids, types, addresses, ports and
  options. What the YAML library contributes is assumed: loading what it dumped for this
  configuration yields this configuration.
\<close>

theorem save_then_load_roundtrip:
  assumes "\<not> write_denied os p"
    and "safe_load y (dump y (config m)) = Some (config m)"
  shows "config (load_config y (fst (save_config y os m p)) m' p) = config m
         \<and> definitions (config (load_config y (fst (save_config y os m p)) m' p))
             = definitions (config m)"
  using assms by (simp add: save_config_def load_config_def logged_def)


theorem save_then_load_roundtrip_witness:
  "\<not> write_denied empty_os ''out.yaml''
   \<and> safe_load plain_yaml (dump plain_yaml (config created_manager)) = Some (config created_manager)
   \<and> map def_id (definitions (config
        (load_config plain_yaml (fst (save_config plain_yaml empty_os created_manager ''out.yaml''))
           (HoneypotManager plain_yaml sample_os (Some ''bad.yaml'')) ''out.yaml'')))
      = [Some ''ssh-honeypot-1'', Some ''web-honeypot-1'', Some ''decoy-3'']"
  using save_then_load_roundtrip [of empty_os "''out.yaml''" plain_yaml created_manager
      "HoneypotManager plain_yaml sample_os (Some ''bad.yaml'')"]
  by (simp add: empty_os_def plain_yaml_def created_manager_def eval_defs)

subsection \<open>The registry and the stored definitions\<close>

text \<open>
  Claim C9. Take a manager whose registry holds each id once, whose store is a mapping with
  an id in every definition and no id twice, and in which every registered instance has
  exactly one definition with its id. After any sequence of \<open>create_honeypot\<close> and
  \<open>remove_honeypot\<close> calls, whatever the collaborators do, every registered instance still
  has exactly one stored definition with its id (and the store is still such a mapping). A
  manager constructed without a configuration source is such a manager, so the same holds
  after any sequence of the two operations on it. Definitions without an instance are
  allowed, as in the freshly constructed manager itself.
\<close>

theorem registry_consistent_after_operations:
  "(dict_ok (honeypots m) \<and> store_ok (config m) \<and> registry_consistent m \<longrightarrow>
      registry_consistent (run_operations e ops m)
      \<and> store_ok (config (run_operations e ops m))
      \<and> (\<forall>k h. (k, h) \<in> set (honeypots (run_operations e ops m))
            \<longrightarrow> count_defs k (config (run_operations e ops m)) = 1))
   \<and> registry_consistent (run_operations e ops (HoneypotManager y os None))
   \<and> (\<forall>k h. (k, h) \<in> set (honeypots (run_operations e ops (HoneypotManager y os None)))
         \<longrightarrow> count_defs k (config (run_operations e ops (HoneypotManager y os None))) = 1)"
proof -
  have step: "manager_inv (run_operations e ops m')" if "manager_inv m'" for m'
    using that by (rule run_operations_inv)
  have fresh: "manager_inv (HoneypotManager y os None)"
    by (simp add: manager_inv_def HoneypotManager_def default_config_def dict_ok_def
        registry_consistent_def)
  have a: "registry_consistent (run_operations e ops m)
      \<and> store_ok (config (run_operations e ops m))
      \<and> (\<forall>k h. (k, h) \<in> set (honeypots (run_operations e ops m))
            \<longrightarrow> count_defs k (config (run_operations e ops m)) = 1)"
    if "dict_ok (honeypots m)" "store_ok (config m)" "registry_consistent m"
  proof -
    from that have "manager_inv m" by (simp add: manager_inv_def)
    from step [OF this] show ?thesis
      by (auto simp: manager_inv_def registry_consistent_def list_all_iff)
  qed
  from step [OF fresh]
  have b: "registry_consistent (run_operations e ops (HoneypotManager y os None))
      \<and> (\<forall>k h. (k, h) \<in> set (honeypots (run_operations e ops (HoneypotManager y os None)))
         \<longrightarrow> count_defs k (config (run_operations e ops (HoneypotManager y os None))) = 1)"
    by (auto simp: manager_inv_def registry_consistent_def list_all_iff)
  from a b show ?thesis by blast
qed

theorem registry_consistent_after_operations_witness:
  "dict_ok (honeypots fresh_manager) \<and> store_ok (config fresh_manager)
   \<and> registry_consistent fresh_manager
   \<and> map fst (honeypots (run_operations healthy_env
        [Create ''decoy-3'' ''ssh'' ''0.0.0.0'' 2200 [], Create ''web-honeypot-1'' ''web'' ''0.0.0.0'' 8080 [],
         Remove ''nope'', Remove ''decoy-3''] fresh_manager)) = [''web-honeypot-1'']
   \<and> map def_id (definitions (config (run_operations healthy_env
        [Create ''decoy-3'' ''ssh'' ''0.0.0.0'' 2200 [], Create ''web-honeypot-1'' ''web'' ''0.0.0.0'' 8080 [],
         Remove ''nope'', Remove ''decoy-3''] fresh_manager)))
       = [Some ''ssh-honeypot-1'', Some ''web-honeypot-1'']
   \<and> count_defs ''web-honeypot-1'' (config (run_operations healthy_env
        [Create ''decoy-3'' ''ssh'' ''0.0.0.0'' 2200 [], Create ''web-honeypot-1'' ''web'' ''0.0.0.0'' 8080 [],
         Remove ''nope'', Remove ''decoy-3''] fresh_manager)) = 1"
  using registry_consistent_after_operations [of fresh_manager healthy_env
      "[Create ''decoy-3'' ''ssh'' ''0.0.0.0'' 2200 [], Create ''web-honeypot-1'' ''web'' ''0.0.0.0'' 8080 [],
         Remove ''nope'', Remove ''decoy-3'']" plain_yaml empty_os]
  by (simp add: eval_defs run_operations_def dict_ok_def registry_consistent_def count_defs_def)


subsection \<open>Starting all instances\<close>

text \<open>
  Claim C2, as stated: the two built-in definitions listen on ports 22 and 80. The ports
  in the code are 2222 and 8080.
\<close>

theorem default_ports_counterexample:
  "map def_port (definitions (config fresh_manager)) \<noteq> [Some 22, Some 80]"
  by (simp add: fresh_manager_def HoneypotManager_def default_config_def)

text \<open>
  Claim C2, amended. A manager constructed without a configuration source holds exactly
  two definitions: \<open>ssh-honeypot-1\<close> of type \<open>SSH\<close> on port 2222 and \<open>web-honeypot-1\<close> of type
  \<open>Web\<close> on port 8080. When the two constructors and the two starts do not raise, after
  \<open>start_all\<close> the registry holds an Active SSH instance and an Active Web instance under
  these ids, both starts have settled without exception, and the status query without an id
  returns exactly two entries.
\<close>

theorem fresh_manager_defaults_and_start_all:
  assumes "\<not> ctor_raises e SSH ''ssh-honeypot-1'' ''0.0.0.0'' 2222
               [(''banner'', ''SSH-2.0-OpenSSH_8.2p1 Ubuntu-4ubuntu0.5'')]"
    and "\<not> ctor_raises e Web ''web-honeypot-1'' ''0.0.0.0'' 8080
               [(''server_type'', ''Apache/2.4.41 (Ubuntu)'')]"
    and "\<forall>h. hp_id h = ''ssh-honeypot-1'' \<or> hp_id h = ''web-honeypot-1'' \<longrightarrow> \<not> start_raises e h"
  shows "map (\<lambda>d. (def_id d, def_type d, def_port d))
            (definitions (config (HoneypotManager y os None)))
          = [(Some ''ssh-honeypot-1'', Some ''SSH'', Some 2222),
             (Some ''web-honeypot-1'', Some ''Web'', Some 8080)]
         \<and> map (\<lambda>p. (fst p, hp_kind (snd p), status (snd p)))
            (honeypots (fst (start_all e (HoneypotManager y os None))))
          = [(''ssh-honeypot-1'', SSH, Active), (''web-honeypot-1'', Web, Active)]
         \<and> snd (start_all e (HoneypotManager y os None))
          = Inr [(''ssh-honeypot-1'', None), (''web-honeypot-1'', None)]
         \<and> (\<exists>a b. get_honeypot_status (fst (start_all e (HoneypotManager y os None))) None
                  = StatusAll [(''ssh-honeypot-1'', a), (''web-honeypot-1'', b)])"
  using assms
  by (simp add: HoneypotManager_def default_config_def
      create_honeypot_def store_created_def construct_def logged_def upper_def upper_char_def
      is_ascii_def call_create_honeypot_def spreadable_def parameter_names_def
      start_def start_all_def settle_def gather_def get_honeypot_status_def
      status_of_all_def get_status_def)

theorem fresh_manager_defaults_and_start_all_witness:
  "\<not> ctor_raises healthy_env SSH ''ssh-honeypot-1'' ''0.0.0.0'' 2222
        [(''banner'', ''SSH-2.0-OpenSSH_8.2p1 Ubuntu-4ubuntu0.5'')]
   \<and> map (\<lambda>p. (fst p, hp_kind (snd p), status (snd p)))
        (honeypots (fst (start_all healthy_env (HoneypotManager plain_yaml empty_os None))))
       = [(''ssh-honeypot-1'', SSH, Active), (''web-honeypot-1'', Web, Active)]
   \<and> (\<exists>a b. get_honeypot_status
          (fst (start_all healthy_env (HoneypotManager plain_yaml empty_os None))) None
        = StatusAll [(''ssh-honeypot-1'', a), (''web-honeypot-1'', b)])"
  using fresh_manager_defaults_and_start_all [of healthy_env plain_yaml empty_os]
  by (simp add: healthy_env_def)

text \<open>
  Claim C3 says that \<open>start_all\<close> issues a start only to the instances that are not Active.
  The second loop of \<open>start_all\<close> has no such test: run on a manager whose two instances are
  both Active, it launches a start task for each of them.
\<close>

theorem start_all_restarts_active:
  "map (status \<circ> snd) (honeypots (fst (start_all healthy_env fresh_manager))) = [Active, Active]
   \<and> snd (start_all healthy_env (fst (start_all healthy_env fresh_manager)))
       = Inr [(''ssh-honeypot-1'', None), (''web-honeypot-1'', None)]"
  by (simp add: eval_defs)

text \<open>
  Claim C4. On a configuration that the first loop can read (a mapping whose entries have the
  keys \<open>id\<close> and \<open>type\<close> and no option named like a parameter of \<open>create_honeypot\<close>),
  \<open>start_all\<close> never raises to its caller, whichever starts fail. The instances it creates
  and launches do not depend on which starts fail. It returns when every launched start has
  settled: the outcomes list the registered instances in order, each with the exception of
  its own start or none, and afterwards every instance whose own start did not raise is
  Active, whatever happened to the others.
\<close>

theorem start_all_isolates_start_failures:
  assumes "startable (config m)"
  shows "\<exists>m1 m3.
           create_configured e (m\<lparr>running := True\<rparr>) (definitions (config m)) = (m1, None)
         \<and> (\<forall>f. create_configured (e\<lparr>start_raises := f\<rparr>) (m\<lparr>running := True\<rparr>)
                  (definitions (config m)) = (m1, None))
         \<and> start_all e m
             = (m3, Inr (map (\<lambda>(k, h). (k, if start_raises e h then Some StartFailure else None))
                       (honeypots m1)))
         \<and> honeypots m3
             = map (\<lambda>(k, h). (k, if start_raises e h then h else h\<lparr>status := Active\<rparr>))
                 (honeypots m1)"
proof -
  from assms obtain hs where c: "config m = Dict hs"
    and wf: "list_all (\<lambda>d. def_id d \<noteq> None \<and> def_type d \<noteq> None
                 \<and> spreadable (case def_options d of None \<Rightarrow> [] | Some opts \<Rightarrow> opts))
               (get_honeypots hs)"
    by (auto simp: startable_def split: config.splits)
  define m1 where "m1 = fst (create_configured e (m\<lparr>running := True\<rparr>) (get_honeypots hs))"
  have cc: "create_configured e (m\<lparr>running := True\<rparr>) (get_honeypots hs) = (m1, None)"
    using create_configured_no_exception [OF wf, of e "m\<lparr>running := True\<rparr>"]
    by (simp add: m1_def prod_eq_iff)
  have cf: "create_configured (e\<lparr>start_raises := f\<rparr>) (m\<lparr>running := True\<rparr>) (get_honeypots hs)
              = (m1, None)" for f
    using cc by (simp add: create_configured_ignores_start)
  have sa: "start_all e m =
     ((fold (\<lambda>(honeypot_id, honeypot). logged Info (''Starting honeypot '' @ honeypot_id) None)
         (honeypots m1) m1)
        \<lparr>honeypots := map (\<lambda>(k, h). (k, if start_raises e h then h else h\<lparr>status := Active\<rparr>))
                        (honeypots m1)\<rparr>,
      Inr (map (\<lambda>(k, h). (k, if start_raises e h then Some StartFailure else None))
             (honeypots m1)))"
    using c cc
    by (simp add: start_all_def gather_def fst_settle snd_settle split_def comp_def Let_def)
  show ?thesis
    using c cc cf sa by simp
qed


theorem start_all_isolates_start_failures_witness:
  "startable (config fresh_manager)
   \<and> snd (start_all ssh_failing_env fresh_manager)
       = Inr [(''ssh-honeypot-1'', Some StartFailure), (''web-honeypot-1'', None)]
   \<and> map (status \<circ> snd) (honeypots (fst (start_all ssh_failing_env fresh_manager)))
       = [Inactive, Active]"
  using start_all_isolates_start_failures [of fresh_manager ssh_failing_env]
  by (simp add: eval_defs startable_def)

end
